theory Spec2Isabelle
  imports Complex_Main
begin

section \<open>JavaScript values\<close>

text \<open>
  The values that \<^verbatim>\<open>lib/PirateNode.js\<close> handles. An object literal of the source is
  a \<open>JObj\<close> with its properties in source order; an object that the caller owns and hands
  in (the \<^verbatim>\<open>options\<close> of \<^verbatim>\<open>search\<close>) lives in the heap and is named by a \<open>JRef\<close>.
  The number literals of the source (\<^verbatim>\<open>0.5\<close>, \<^verbatim>\<open>2.5\<close>, \<^verbatim>\<open>2000\<close>) are exact
  rationals. \<open>JError m\<close> is an \<^verbatim>\<open>Error\<close> object with message \<open>m\<close>.
\<close>

datatype jsval =
    JUndefined
  | JNull
  | JBool bool
  | JNum rat
  | JStr string
  | JArr "jsval list"
  | JObj "(string \<times> jsval) list"
  | JRef nat
  | JError string

type_synonym props = "(string \<times> jsval) list"

text \<open>The test that \<^verbatim>\<open>if (v)\<close> makes: every object is true, also an \<^verbatim>\<open>Error\<close>.\<close>

fun truthy :: "jsval \<Rightarrow> bool" where
  "truthy JUndefined = False"
| "truthy JNull = False"
| "truthy (JBool b) = b"
| "truthy (JNum n) = (n \<noteq> 0)"
| "truthy (JStr s) = (s \<noteq> [])"
| "truthy (JArr xs) = True"
| "truthy (JObj ps) = True"
| "truthy (JRef a) = True"
| "truthy (JError m) = True"

text \<open>Reading \<^verbatim>\<open>o[name]\<close>: a missing property reads as \<^verbatim>\<open>undefined\<close>.\<close>

definition get_prop :: "props \<Rightarrow> string \<Rightarrow> jsval" where
  "get_prop ps name = (case map_of ps name of None \<Rightarrow> JUndefined | Some v \<Rightarrow> v)"

text \<open>
  Writing \<^verbatim>\<open>o[name] = v\<close>: an existing property keeps its place and takes the new
  value, a new property is added last.
\<close>

fun set_prop :: "string \<Rightarrow> jsval \<Rightarrow> props \<Rightarrow> props" where
  "set_prop name v [] = [(name, v)]"
| "set_prop name v (p # ps) =
     (if fst p = name then (name, v) # ps else p # set_prop name v ps)"

text \<open>
  \<^verbatim>\<open>String.prototype.indexOf\<close>: the position of the first occurrence, or \<open>-1\<close>.
\<close>

fun indexOf_from :: "nat \<Rightarrow> string \<Rightarrow> string \<Rightarrow> int" where
  "indexOf_from i pat [] = (if pat = [] then int i else - 1)"
| "indexOf_from i pat (c # cs) =
     (if take (length pat) (c # cs) = pat then int i else indexOf_from (Suc i) pat cs)"

definition indexOf :: "string \<Rightarrow> string \<Rightarrow> int" where
  "indexOf s pat = indexOf_from 0 pat s"

section \<open>The libraries the module requires\<close>

text \<open>
  The module loads \<^verbatim>\<open>extend\<close> from the package of that name, which is a dependency
  and not part of this repository. Its two-argument use \<^verbatim>\<open>extend(target, source)\<close>
  (no leading boolean, so no deep merge) is modelled after the package's documented
  behaviour: it walks the properties of \<open>source\<close> in order, skips a property whose value is
  \<^verbatim>\<open>undefined\<close>, assigns every other one to \<open>target\<close>, and returns \<open>target\<close> itself: the
  object it was given, modified in place.
\<close>

fun extend_props :: "props \<Rightarrow> props \<Rightarrow> props" where
  "extend_props target [] = target"
| "extend_props target ((name, copy) # rest) =
     extend_props (if copy = JUndefined then target else set_prop name copy target) rest"

text \<open>
  \<^verbatim>\<open>extend\<close> on a value held in a local variable (the \<^verbatim>\<open>esConfig\<close> of
  \<^verbatim>\<open>prepareConfig\<close>). A target that is not an object is replaced by a fresh \<^verbatim>\<open>{}\<close>
  (for a boolean target the package takes \<open>source\<close> itself as the target, which has the
  same properties). An array target receives the properties as named properties, which
  \<^verbatim>\<open>JSON.stringify\<close> does not print: what is persisted is the array.
\<close>

fun extend_local :: "jsval \<Rightarrow> props \<Rightarrow> jsval" where
  "extend_local (JObj ps) src = JObj (extend_props ps src)"
| "extend_local (JArr xs) src = JArr xs"
| "extend_local (JRef a) src = JRef a"
| "extend_local (JError m) src = JError m"
| "extend_local v src = JObj (extend_props [] src)"

text \<open>
  What Node and the language supply: \<^verbatim>\<open>path.join\<close>, \<^verbatim>\<open>JSON.parse\<close> (\<open>None\<close> when it
  throws a \<^verbatim>\<open>SyntaxError\<close>) and \<^verbatim>\<open>JSON.stringify\<close>. They are parameters of the model.
\<close>

record platform =
  path_join :: "string list \<Rightarrow> string"
  json_parse :: "string \<Rightarrow> jsval option"
  json_stringify :: "jsval \<Rightarrow> string"

section \<open>State, effects and the outside world\<close>

text \<open>
  Exceptions the module's code can raise: reading a property of \<^verbatim>\<open>undefined\<close> (a
  \<^verbatim>\<open>TypeError\<close>, with the property's name), \<^verbatim>\<open>JSON.parse\<close> rejecting a text, and
  \<^verbatim>\<open>EventEmitter.emit("error", data)\<close> on an emitter that has no listener for
  \<^verbatim>\<open>"error"\<close>, which raises instead of delivering \<open>data\<close>.
\<close>

datatype exn =
    ReadPropertyOfUndefined string
  | JsonSyntaxError string
  | UnhandledErrorEvent string

text \<open>
  Everything the module does to the outside is an event of the trace, in the order it
  happens. \<open>Throws e\<close> is the point where the running code raised \<open>e\<close>; nothing of that
  call runs after it. \<open>Invoked args\<close> is the caller's callback being called with
  \<open>args\<close>, for a caller that only records the call.
\<close>

datatype event =
    ConsoleLog string
  | FindJavaHome
  | WriteFile string string
  | Spawn string "jsval list" props
  | NewClient jsval
  | NextTick
  | Emit string string
  | IndicesExists jsval
  | IndicesDelete jsval
  | NodesShutdown
  | ClientSearch nat props
  | HttpRequest jsval
  | SetTimeout nat
  | Throws exn
  | Invoked "jsval list"

text \<open>
  The state: the module's variable \<^verbatim>\<open>client\<close> (\<open>None\<close> is \<^verbatim>\<open>undefined\<close>, \<open>Some c\<close>
  the client built from the settings \<open>c\<close>), whether the emitter \<^verbatim>\<open>node\<close> has a listener
  for \<^verbatim>\<open>"error"\<close> (the module registers none: only the caller can have), the files by
  path, the heap of the caller's objects, and the trace so far.
\<close>

record sys =
  client :: "jsval option"
  error_listener :: bool
  files :: "string \<Rightarrow> string option"
  heap :: "nat \<Rightarrow> props"
  trace :: "event list"

definition emit :: "event \<Rightarrow> sys \<Rightarrow> sys" where
  "emit ev s = s\<lparr>trace := trace s @ [ev]\<rparr>"

definition throw :: "exn \<Rightarrow> sys \<Rightarrow> sys" where
  "throw e s = emit (Throws e) s"

definition report :: "jsval list \<Rightarrow> sys \<Rightarrow> sys" where
  "report args s = emit (Invoked args) s"

text \<open>
  What the outside answers. Each asynchronous operation calls its callback once, with
  these arguments: the Elasticsearch client's \<^verbatim>\<open>(err, result)\<close>, the \<^verbatim>\<open>request\<close>
  package's \<^verbatim>\<open>(err, response, body)\<close> for the request it was given, and
  \<^verbatim>\<open>find-java-home\<close>'s \<^verbatim>\<open>(err, javaHome)\<close>; and the value of
  \<^verbatim>\<open>process.env.JAVA_HOME\<close>.
\<close>

record world =
  exists_reply :: "jsval \<times> jsval"
  delete_reply :: "jsval"
  shutdown_reply :: "jsval \<times> jsval"
  search_reply :: "props \<Rightarrow> jsval \<times> jsval"
  http_reply :: "jsval \<Rightarrow> jsval \<times> jsval \<times> jsval"
  java_home_reply :: "jsval \<times> jsval"
  env_JAVA_HOME :: "jsval"

text \<open>
  The constructor's arguments. \<open>search_port\<close> is the text that the source's string
  concatenations make of \<^verbatim>\<open>config.search.port\<close>; \<open>nodeRandom\<close> is the text of the
  number \<^verbatim>\<open>Math.ceil(Math.random() * Date.now())\<close> drawn at construction.
\<close>

record runtime_config =
  search_host :: string
  search_port :: string
  search_master :: jsval
  dataSource_url :: string
  dataSource_user :: jsval
  dataSource_password :: jsval

record pirate_node =
  rootDir :: string
  config :: runtime_config
  nodeRandom :: string

section \<open>The module's constants\<close>

definition CLUSTER_NAME :: string where
  "CLUSTER_NAME = ''piratesbey''"

definition INDEX_NAME :: string where
  "INDEX_NAME = ''torrents''"

definition NODE_NAME :: "pirate_node \<Rightarrow> string" where
  "NODE_NAME i = ''pirate-'' @ nodeRandom i"

definition RIVER_URL :: "pirate_node \<Rightarrow> string" where
  "RIVER_URL i =
     ''http://'' @ search_host (config i) @ '':'' @ search_port (config i) @
     ''/_river/my_mysql_river''"

definition TORRENT_DOCUMENT_MAPPING :: jsval where
  "TORRENT_DOCUMENT_MAPPING = JObj
     [(''_id'', JObj [(''type'', JStr ''string''), (''path'', JStr ''hash''),
                      (''index'', JStr ''not_analyzed'')]),
      (''properties'', JObj
        [(''hash'', JObj [(''type'', JStr ''string''), (''index'', JStr ''not_analyzed'')]),
         (''uploaded'', JObj [(''type'', JStr ''date''), (''index'', JStr ''not_analyzed'')]),
         (''size'', JObj [(''type'', JStr ''long''), (''index'', JStr ''not_analyzed'')]),
         (''title'', JObj [(''type'', JStr ''string''), (''analyzer'', JStr ''english'')]),
         (''source'', JObj [(''type'', JStr ''string''), (''analyzer'', JStr ''english'')]),
         (''nfo'', JObj [(''type'', JStr ''string''), (''analyzer'', JStr ''english'')]),
         (''seeders'', JObj [(''type'', JStr ''long''), (''index'', JStr ''not_analyzed'')]),
         (''leechers'', JObj [(''type'', JStr ''long''), (''index'', JStr ''not_analyzed'')])])]"

definition START_TRIGGER :: "pirate_node \<Rightarrow> string" where
  "START_TRIGGER i = ''['' @ NODE_NAME i @ ''] started''"

section \<open>Query builders\<close>

text \<open>
  \<^verbatim>\<open>extend(options, {...})\<close> on the caller's object: the object at \<open>options\<close> in the
  heap is the target, and it is the object that \<^verbatim>\<open>extend\<close> returns.
\<close>

definition extend_ref :: "nat \<Rightarrow> props \<Rightarrow> sys \<Rightarrow> sys" where
  "extend_ref a src s = s\<lparr>heap := (heap s)(a := extend_props (heap s a) src)\<rparr>"

text \<open>
  \<^verbatim>\<open>client.search(extend(options, {...}), callback)\<close>. The callee \<^verbatim>\<open>client.search\<close>
  is evaluated before the arguments, so with \<^verbatim>\<open>client\<close> undefined the call raises
  before \<^verbatim>\<open>extend\<close> runs. The event records the reference passed and the object's
  properties at the time of the call.
\<close>

definition client_search ::
  "nat \<Rightarrow> props \<Rightarrow> world \<Rightarrow> (jsval \<Rightarrow> jsval \<Rightarrow> sys \<Rightarrow> sys) \<Rightarrow> sys \<Rightarrow> sys" where
  "client_search options src w callback s =
     (case client s of
        None \<Rightarrow> throw (ReadPropertyOfUndefined ''search'') s
      | Some c \<Rightarrow>
          (let s1 = extend_ref options src s;
               req = heap s1 options
           in callback (fst (search_reply w req)) (snd (search_reply w req))
                (emit (ClientSearch options req) s1)))"

definition search ::
  "string \<Rightarrow> nat \<Rightarrow> world \<Rightarrow> (jsval \<Rightarrow> jsval \<Rightarrow> sys \<Rightarrow> sys) \<Rightarrow> sys \<Rightarrow> sys" where
  "search query options w callback s =
     client_search options
       [(''index'', JStr INDEX_NAME),
        (''type'', JStr ''torrent''),
        (''q'', JStr query)] w callback s"

definition fullSearch_body :: "string \<Rightarrow> jsval" where
  "fullSearch_body query = JObj
     [(''min_score'', JNum 0.5),
      (''query'', JObj
        [(''function_score'', JObj
          [(''query'', JObj
             [(''query_string'', JObj
                [(''fields'', JArr [JStr ''title^4'', JStr ''nfo'']),
                 (''query'', JStr query)])]),
           (''field_value_factor'', JObj
             [(''field'', JStr ''seeders''),
              (''modifier'', JStr ''ln2p''),
              (''factor'', JNum 0.5)]),
           (''boost_mode'', JStr ''multiply''),
           (''max_boost'', JNum 2.5)])])]"

definition fullSearch ::
  "string \<Rightarrow> nat \<Rightarrow> world \<Rightarrow> (jsval \<Rightarrow> jsval \<Rightarrow> sys \<Rightarrow> sys) \<Rightarrow> sys \<Rightarrow> sys" where
  "fullSearch query options w callback s =
     client_search options
       [(''index'', JStr INDEX_NAME),
        (''type'', JStr ''torrent''),
        (''body'', fullSearch_body query)] w callback s"

section \<open>Configuration file\<close>

definition writeFileSync :: "string \<Rightarrow> string \<Rightarrow> sys \<Rightarrow> sys" where
  "writeFileSync file content s =
     emit (WriteFile file content) (s\<lparr>files := (files s)(file \<mapsto> content)\<rparr>)"

definition configFile :: "platform \<Rightarrow> pirate_node \<Rightarrow> string" where
  "configFile p i = path_join p [rootDir i, ''config'', ''elasticsearch.json'']"

text \<open>The object literal that \<^verbatim>\<open>prepareConfig\<close> merges into the file's content.\<close>

definition config_overrides :: "pirate_node \<Rightarrow> props" where
  "config_overrides i =
     [(''cluster'', JObj [(''name'', JStr CLUSTER_NAME)]),
      (''node'', JObj
         [(''name'', JStr (NODE_NAME i)),
          (''master'', search_master (config i))]),
      (''network'', JObj
         [(''bind_host'', JStr (search_host (config i))),
          (''publish_host'', JStr (search_host (config i)))])]"

text \<open>
  \<^verbatim>\<open>prepareConfig\<close>: \<open>esConfig\<close> starts as \<^verbatim>\<open>{}\<close>, or as the parsed content when the
  file exists (\<^verbatim>\<open>JSON.parse\<close> may throw, which leaves the function at once); then the
  merge and the write.
  Reading an existing file and writing the file are taken to succeed.
\<close>

definition prepareConfig :: "platform \<Rightarrow> pirate_node \<Rightarrow> sys \<Rightarrow> exn + sys" where
  "prepareConfig p i s =
     (case (case files s (configFile p i) of
              None \<Rightarrow> Inr (JObj [])
            | Some content \<Rightarrow>
                (case json_parse p content of
                   None \<Rightarrow> Inl (JsonSyntaxError content)
                 | Some v \<Rightarrow> Inr v)) of
        Inl e \<Rightarrow> Inl e
      | Inr esConfig \<Rightarrow>
          Inr (writeFileSync (configFile p i)
                 (json_stringify p (extend_local esConfig (config_overrides i))) s))"

section \<open>Starting and stopping the daemon\<close>

definition initialize :: "pirate_node \<Rightarrow> sys \<Rightarrow> sys" where
  "initialize i s =
     (let c = JObj
        [(''host'', JStr (search_host (config i) @ '':'' @ search_port (config i))),
         (''log'', JBool False),
         (''sniffOnStart'', JBool True),
         (''sniffInterval'', JNum 60000)]
      in emit (NewClient c) (s\<lparr>client := Some c\<rparr>))"

text \<open>What the daemon process writes, chunk by chunk, on its two streams.\<close>

datatype chunk = Stdout string | Stderr string

text \<open>
  The two \<^verbatim>\<open>'data'\<close> listeners of \<^verbatim>\<open>start\<close>. A listener returns the state it leaves
  and the functions it handed to \<^verbatim>\<open>process.nextTick\<close>; those run once the listener has
  returned. The \<^verbatim>\<open>stderr\<close> listener calls \<^verbatim>\<open>node.emit("error", data)\<close>: with a
  listener of the caller's the chunk is delivered (the event \<open>Emit\<close>); with none the call
  raises, nothing catches it, and the process ends: no later chunk is looked at.
\<close>

definition on_stdout_data ::
  "pirate_node \<Rightarrow> (sys \<Rightarrow> sys) \<Rightarrow> string \<Rightarrow> sys \<Rightarrow> sys \<times> (sys \<Rightarrow> sys) list" where
  "on_stdout_data i callback data s =
     (if indexOf data (START_TRIGGER i) > - 1
      then (emit NextTick (initialize i s), [callback])
      else (s, []))"

definition on_stderr_data :: "string \<Rightarrow> sys \<Rightarrow> exn + sys \<times> (sys \<Rightarrow> sys) list" where
  "on_stderr_data data s =
     (if error_listener s then Inr (emit (Emit ''error'' data) s, [])
      else Inl (UnhandledErrorEvent data))"

definition run_ticks :: "(sys \<Rightarrow> sys) list \<Rightarrow> sys \<Rightarrow> sys" where
  "run_ticks jobs s = fold (\<lambda>job. job) jobs s"

fun daemon_output :: "pirate_node \<Rightarrow> (sys \<Rightarrow> sys) \<Rightarrow> chunk list \<Rightarrow> sys \<Rightarrow> sys" where
  "daemon_output i callback [] s = s"
| "daemon_output i callback (Stdout data # rest) s =
     (case on_stdout_data i callback data s of
        (s', jobs) \<Rightarrow> daemon_output i callback rest (run_ticks jobs s'))"
| "daemon_output i callback (Stderr data # rest) s =
     (case on_stderr_data data s of
        Inl e \<Rightarrow> throw e s
      | Inr (s', jobs) \<Rightarrow> daemon_output i callback rest (run_ticks jobs s'))"

text \<open>
  \<^verbatim>\<open>start\<close>: the body of the \<^verbatim>\<open>findJavaHome\<close> callback, followed by what the two
  listeners do with the \<open>outputs\<close> of the spawned process. An exception of
  \<^verbatim>\<open>prepareConfig\<close> is not caught, so nothing after it runs.
\<close>

definition start ::
  "platform \<Rightarrow> pirate_node \<Rightarrow> world \<Rightarrow> chunk list \<Rightarrow> (sys \<Rightarrow> sys) \<Rightarrow> sys \<Rightarrow> sys" where
  "start p i w outputs callback s =
     (let s1 = emit FindJavaHome s;
          javaHome = (if truthy (env_JAVA_HOME w) then env_JAVA_HOME w
                      else snd (java_home_reply w))
      in case prepareConfig p i s1 of
           Inl e \<Rightarrow> throw e s1
         | Inr s2 \<Rightarrow>
             daemon_output i callback outputs
               (emit (Spawn (path_join p [rootDir i, ''bin'', ''elasticsearch'']) []
                        [(''JAVA_HOME'', javaHome)]) s2))"

definition shutdown :: "world \<Rightarrow> (jsval \<Rightarrow> jsval \<Rightarrow> sys \<Rightarrow> sys) \<Rightarrow> sys \<Rightarrow> sys" where
  "shutdown w callback s =
     (case client s of
        None \<Rightarrow> throw (ReadPropertyOfUndefined ''nodes'') s
      | Some c \<Rightarrow>
          callback (fst (shutdown_reply w)) (snd (shutdown_reply w)) (emit NodesShutdown s))"

section \<open>Rebuilding the index\<close>

text \<open>\<^verbatim>\<open>request(options, callback)\<close> of the \<^verbatim>\<open>request\<close> package.\<close>

definition request ::
  "world \<Rightarrow> jsval \<Rightarrow> (jsval \<Rightarrow> jsval \<Rightarrow> jsval \<Rightarrow> sys \<Rightarrow> sys) \<Rightarrow> sys \<Rightarrow> sys" where
  "request w options callback s =
     (case http_reply w options of
        (err, response, body) \<Rightarrow> callback err response body (emit (HttpRequest options) s))"

definition river_definition :: "pirate_node \<Rightarrow> jsval" where
  "river_definition i = JObj
     [(''uri'', JStr (RIVER_URL i @ ''/_meta'')),
      (''method'', JStr ''PUT''),
      (''json'', JBool True),
      (''body'', JObj
        [(''type'', JStr ''jdbc''),
         (''jdbc'', JObj
           [(''url'', JStr (''jdbc:'' @ dataSource_url (config i))),
            (''user'', dataSource_user (config i)),
            (''password'', dataSource_password (config i)),
            (''sql'', JStr ''select * from torrents''),
            (''index'', JStr INDEX_NAME),
            (''type'', JStr ''torrent''),
            (''index_settings'', JObj
              [(''index'', JObj
                 [(''number_of_shards'', JNum 5),
                  (''number_of_replicas'', JNum 1)])]),
            (''type_mapping'', JObj
              [(''torrent'', TORRENT_DOCUMENT_MAPPING)])])])]"

definition createRiver :: "world \<Rightarrow> pirate_node \<Rightarrow> (jsval \<Rightarrow> sys \<Rightarrow> sys) \<Rightarrow> sys \<Rightarrow> sys" where
  "createRiver w i callback s =
     request w (river_definition i) (\<lambda>err response body. callback err) s"

definition river_delete :: "pirate_node \<Rightarrow> jsval" where
  "river_delete i = JObj [(''uri'', JStr (RIVER_URL i)), (''method'', JStr ''DELETE'')]"

definition triggerRiver :: "world \<Rightarrow> pirate_node \<Rightarrow> (jsval \<Rightarrow> sys \<Rightarrow> sys) \<Rightarrow> sys \<Rightarrow> sys" where
  "triggerRiver w i callback s =
     request w (river_delete i)
       (\<lambda>err response body s'.
          if truthy err then callback err s'
          else createRiver w i callback (emit (SetTimeout 2000) s'))
       (emit (ConsoleLog ''Importing data from MySQL into index...'') s)"

definition indexExists :: "world \<Rightarrow> (jsval \<Rightarrow> jsval \<Rightarrow> sys \<Rightarrow> sys) \<Rightarrow> sys \<Rightarrow> sys" where
  "indexExists w callback s =
     (case client s of
        None \<Rightarrow> throw (ReadPropertyOfUndefined ''indices'') s
      | Some c \<Rightarrow>
          callback (fst (exists_reply w)) (snd (exists_reply w))
            (emit (IndicesExists (JObj [(''index'', JStr INDEX_NAME)])) s))"

definition deleteIndex :: "world \<Rightarrow> (jsval \<Rightarrow> sys \<Rightarrow> sys) \<Rightarrow> sys \<Rightarrow> sys" where
  "deleteIndex w callback s =
     (case client s of
        None \<Rightarrow> throw (ReadPropertyOfUndefined ''indices'') s
      | Some c \<Rightarrow>
          callback (delete_reply w)
            (emit (IndicesDelete (JObj [(''index'', JStr INDEX_NAME)])) s))"

definition setupIndex :: "world \<Rightarrow> pirate_node \<Rightarrow> (jsval \<Rightarrow> sys \<Rightarrow> sys) \<Rightarrow> sys \<Rightarrow> sys" where
  "setupIndex w i callback s =
     indexExists w
       (\<lambda>err exists s'.
          if truthy err then callback err s'
          else if truthy exists then
            deleteIndex w
              (\<lambda>err s''.
                 if truthy err then callback err s''
                 else triggerRiver w i callback s'') s'
          else triggerRiver w i callback s') s"

section \<open>Observations on a run\<close>

text \<open>
  A chunk of the daemon's output that passes the readiness test of the
  \<^verbatim>\<open>stdout\<close> listener.
\<close>

definition has_marker :: "pirate_node \<Rightarrow> chunk \<Rightarrow> bool" where
  "has_marker i c =
     (case c of
        Stdout data \<Rightarrow> - 1 < indexOf data (START_TRIGGER i)
      | Stderr data \<Rightarrow> False)"

text \<open>
  The chunks that reach a listener: all of them when the caller listens for
  \<^verbatim>\<open>"error"\<close>; otherwise those before the first \<^verbatim>\<open>stderr\<close> chunk, at which the
  process ends.
\<close>

definition from_stdout :: "chunk \<Rightarrow> bool" where
  "from_stdout c = (case c of Stdout data \<Rightarrow> True | Stderr data \<Rightarrow> False)"

definition handled :: "bool \<Rightarrow> chunk list \<Rightarrow> chunk list" where
  "handled listening outs = (if listening then outs else takeWhile from_stdout outs)"

text \<open>
  A value that \<^verbatim>\<open>JSON.parse\<close> can return and that is no object: \<^verbatim>\<open>null\<close>, a
  boolean, a number or a string.
\<close>

fun json_scalar :: "jsval \<Rightarrow> bool" where
  "json_scalar JNull = True"
| "json_scalar (JBool b) = True"
| "json_scalar (JNum n) = True"
| "json_scalar (JStr t) = True"
| "json_scalar v = False"

text \<open>How often a recording \<^verbatim>\<open>onReady\<close> callback (one that takes no argument) ran.\<close>

definition ready_calls :: "sys \<Rightarrow> nat" where
  "ready_calls s = length (filter (\<lambda>ev. ev = Invoked []) (trace s))"

text \<open>Reading a nested property \<^verbatim>\<open>v.a.b.c\<close> of a value of literals.\<close>

fun get_path :: "jsval \<Rightarrow> string list \<Rightarrow> jsval" where
  "get_path v [] = v"
| "get_path (JObj ps) (name # names) = get_path (get_prop ps name) names"
| "get_path v (name # names) = JUndefined"

section \<open>A concrete node\<close>

text \<open>
  The runtime configuration \<^verbatim>\<open>{host: "localhost", port: 9200, master: true}\<close>, a node
  that drew the number 123, and an outside in which every remote call succeeds.
\<close>

definition demo_config :: runtime_config where
  "demo_config =
     \<lparr>search_host = ''localhost'', search_port = ''9200'', search_master = JBool True,
      dataSource_url = ''mysql://localhost:3306/tpb'', dataSource_user = JStr ''pirate'',
      dataSource_password = JStr ''secret''\<rparr>"

definition demo_node :: pirate_node where
  "demo_node = \<lparr>rootDir = ''/opt/es'', config = demo_config, nodeRandom = ''123''\<rparr>"

text \<open>
  A stand-in for the platform: paths joined with a slash, and a parser that knows two
  texts, an object and the number \<^verbatim>\<open>5\<close>, and rejects every other text.
\<close>

definition demo_platform :: platform where
  "demo_platform =
     \<lparr>path_join = (\<lambda>parts. foldr (\<lambda>a b. if b = [] then a else a @ ''/'' @ b) parts []),
      json_parse = (\<lambda>content.
        if content = ''{http: {port: 9200}, cluster: {name: old, routing: x}}''
        then Some (JObj [(''http'', JObj [(''port'', JNum 9200)]),
                         (''cluster'', JObj [(''name'', JStr ''old''),
                                            (''routing'', JStr ''x'')])])
        else if content = ''5'' then Some (JNum 5)
        else None),
      json_stringify = (\<lambda>v. case v of JObj ps \<Rightarrow> concat (map fst ps) | _ \<Rightarrow> [])\<rparr>"

definition demo_world :: world where
  "demo_world =
     \<lparr>exists_reply = (JUndefined, JBool True),
      delete_reply = JUndefined,
      shutdown_reply = (JUndefined, JObj []),
      search_reply = (\<lambda>req. (JUndefined, JObj [(''hits'', JArr [])])),
      http_reply = (\<lambda>req. (JNull, JObj [(''statusCode'', JNum 200)], JObj [])),
      java_home_reply = (JNull, JStr ''/usr/lib/jvm/default''),
      env_JAVA_HOME = JUndefined\<rparr>"

text \<open>
  Before \<^verbatim>\<open>initialize\<close>: no client, no listener for \<^verbatim>\<open>"error"\<close>, no configuration
  file, and the caller's options object \<^verbatim>\<open>{size: 10}\<close> at address 0. And the same once
  the client exists.
\<close>

definition demo_down :: sys where
  "demo_down =
     \<lparr>client = None, error_listener = False, files = (\<lambda>file. None),
      heap = (\<lambda>a. [])(0 := [(''size'', JNum 10)]), trace = []\<rparr>"

definition demo_ready :: sys where
  "demo_ready = demo_down\<lparr>client := Some (JObj [(''host'', JStr ''localhost:9200'')])\<rparr>"

text \<open>An installation whose configuration file holds \<open>content\<close>.\<close>

definition demo_installed :: "string \<Rightarrow> sys" where
  "demo_installed content =
     demo_down\<lparr>files := [configFile demo_platform demo_node \<mapsto> content]\<rparr>"

section \<open>Basic facts\<close>

lemma map_of_set_prop:
  "map_of (set_prop k v ps) k' = (if k' = k then Some v else map_of ps k')"
  by (induction ps) auto

lemma get_prop_set_prop:
  "get_prop (set_prop k v ps) k' = (if k' = k then v else get_prop ps k')"
  by (simp add: get_prop_def map_of_set_prop)

lemma trace_emit: "trace (emit ev s) = trace s @ [ev]"
  by (simp add: emit_def)

lemma client_emit: "client (emit ev s) = client s"
  by (simp add: emit_def)

lemma files_emit: "files (emit ev s) = files s"
  by (simp add: emit_def)

text \<open>
  The readiness test \<^verbatim>\<open>indexOf(START_TRIGGER) > -1\<close> holds exactly when the chunk
  contains the marker as a substring.
\<close>

lemma indexOf_from_found:
  "indexOf_from i pat s > - 1 \<longleftrightarrow> (\<exists>pre post. s = pre @ pat @ post)"
proof (induction s arbitrary: i)
  case Nil
  then show ?case by auto
next
  case (Cons c cs)
  show ?case
  proof (cases "take (length pat) (c # cs) = pat")
    case True
    then have "c # cs = [] @ pat @ drop (length pat) (c # cs)"
      by (metis append_Nil append_take_drop_id)
    then have "\<exists>pre post. c # cs = pre @ pat @ post" by blast
    with True show ?thesis by simp
  next
    case False
    have "(\<exists>pre post. c # cs = pre @ pat @ post) \<longleftrightarrow> (\<exists>pre post. cs = pre @ pat @ post)"
    proof
      assume "\<exists>pre post. c # cs = pre @ pat @ post"
      then obtain pre post where e: "c # cs = pre @ pat @ post" by blast
      show "\<exists>pre post. cs = pre @ pat @ post"
      proof (cases pre)
        case Nil
        with e have "take (length pat) (c # cs) = pat" by simp
        with False show ?thesis by simp
      next
        case (Cons a pre')
        with e have "cs = pre' @ pat @ post" by simp
        then show ?thesis by blast
      qed
    next
      assume "\<exists>pre post. cs = pre @ pat @ post"
      then obtain pre post where "cs = pre @ pat @ post" by blast
      then have "c # cs = (c # pre) @ pat @ post" by simp
      then show "\<exists>pre post. c # cs = pre @ pat @ post" by blast
    qed
    with False Cons.IH [of "Suc i"] show ?thesis by simp
  qed
qed

lemma indexOf_contains:
  "- 1 < indexOf s pat \<longleftrightarrow> (\<exists>pre post. s = pre @ pat @ post)"
  by (simp add: indexOf_def indexOf_from_found)

lemmas demo_defs = demo_world_def demo_ready_def demo_down_def demo_node_def demo_config_def
  demo_platform_def

lemma prepareConfig_trace:
  "prepareConfig p i s = Inr s2 \<Longrightarrow> \<exists>content. trace s2 = trace s @ [WriteFile (configFile p i) content]"
  by (auto simp: prepareConfig_def writeFileSync_def trace_emit
      split: option.splits sum.splits)

lemma error_listener_emit: "error_listener (emit ev s) = error_listener s"
  by (simp add: emit_def)

lemma error_listener_initialize: "error_listener (initialize i s) = error_listener s"
  by (simp add: initialize_def Let_def error_listener_emit)

lemma prepareConfig_error_listener:
  "prepareConfig p i s = Inr s2 \<Longrightarrow> error_listener s2 = error_listener s"
  by (auto simp: prepareConfig_def writeFileSync_def error_listener_emit
      split: option.splits sum.splits)

lemma daemon_output_stdout_fold:
  "daemon_output i callback (map Stdout datas) s =
     fold (\<lambda>data st.
             if - 1 < indexOf data (START_TRIGGER i)
             then callback (emit NextTick (initialize i st)) else st) datas s"
  by (induction datas arbitrary: s) (simp_all add: on_stdout_data_def run_ticks_def)

lemma ready_calls_emit:
  "ready_calls (emit ev s) = ready_calls s + (if ev = Invoked [] then 1 else 0)"
  by (simp add: ready_calls_def trace_emit)

lemma ready_calls_initialize: "ready_calls (initialize i s) = ready_calls s"
  by (simp add: initialize_def Let_def ready_calls_def trace_emit)

lemma ready_calls_daemon_output:
  "ready_calls (daemon_output i (report []) outs s) =
     ready_calls s + length (filter (has_marker i) (handled (error_listener s) outs))"
proof (induction outs arbitrary: s)
  case Nil
  then show ?case by (simp add: handled_def)
next
  case (Cons c outs)
  show ?case
  proof (cases c)
    case (Stdout data)
    then show ?thesis
      using Cons.IH
      by (simp add: on_stdout_data_def run_ticks_def has_marker_def report_def
          ready_calls_emit ready_calls_initialize error_listener_emit
          error_listener_initialize handled_def from_stdout_def)
  next
    case (Stderr data)
    then show ?thesis
      using Cons.IH
      by (simp add: on_stderr_data_def run_ticks_def has_marker_def ready_calls_emit
          error_listener_emit handled_def from_stdout_def throw_def)
  qed
qed

lemma start_after_prepareConfig:
  assumes "prepareConfig p i (emit FindJavaHome s) = Inr s2"
  shows "start p i w outs callback s =
           daemon_output i callback outs
             (emit (Spawn (path_join p [rootDir i, ''bin'', ''elasticsearch'']) []
                      [(''JAVA_HOME'', if truthy (env_JAVA_HOME w) then env_JAVA_HOME w
                                       else snd (java_home_reply w))]) s2)"
  using assms by (simp add: start_def Let_def)

lemma ready_calls_start:
  assumes "prepareConfig p i (emit FindJavaHome s) = Inr s2"
  shows "ready_calls (start p i w outs (report []) s) =
           ready_calls s + length (filter (has_marker i) (handled (error_listener s) outs))"
proof -
  from prepareConfig_trace [OF assms]
  have "ready_calls s2 = ready_calls s"
    by (auto simp: ready_calls_def trace_emit)
  moreover from prepareConfig_error_listener [OF assms]
  have "error_listener s2 = error_listener s"
    by (simp add: error_listener_emit)
  ultimately show ?thesis
    by (simp add: start_after_prepareConfig [OF assms] ready_calls_daemon_output
        ready_calls_emit error_listener_emit)
qed

lemma prepareConfig_no_file:
  "files s (configFile p i) = None \<Longrightarrow>
   prepareConfig p i s =
     Inr (writeFileSync (configFile p i)
            (json_stringify p (JObj (extend_props [] (config_overrides i)))) s)"
  by (simp add: prepareConfig_def)

lemma client_search_ready:
  assumes "client s = Some c"
  shows "client_search options src w callback s =
           callback (fst (search_reply w (extend_props (heap s options) src)))
             (snd (search_reply w (extend_props (heap s options) src)))
             (emit (ClientSearch options (extend_props (heap s options) src))
                (s\<lparr>heap := (heap s)(options := extend_props (heap s options) src)\<rparr>))"
  using assms by (simp add: client_search_def extend_ref_def Let_def)

lemma fullSearch_body_defined: "fullSearch_body query \<noteq> JUndefined"
  by (simp add: fullSearch_body_def)

section \<open>Readiness detection\<close>

text \<open>
  Claim C2, as the code has it. Once \<^verbatim>\<open>prepareConfig\<close> has succeeded, \<^verbatim>\<open>start\<close>
  spawns the daemon and then treats its \<^verbatim>\<open>stdout\<close> chunks one by one: every chunk
  that contains the readiness marker runs \<^verbatim>\<open>initialize()\<close>, hands \<^verbatim>\<open>onReady\<close> to
  \<^verbatim>\<open>process.nextTick\<close> and so has it called once, after the listener has returned;
  every other chunk does nothing. A recording \<^verbatim>\<open>onReady\<close> is therefore called as
  many times as there are chunks with the marker among the chunks that reach the
  listeners (all of them, or those before the first \<^verbatim>\<open>stderr\<close> chunk when the caller
  does not listen for \<^verbatim>\<open>"error"\<close>): once when exactly one has it, never when none
  has.
\<close>

theorem start_onReady_per_marker_chunk:
  assumes "prepareConfig p i (emit FindJavaHome s) = Inr s2"
  shows "start p i w (map Stdout datas) callback s =
           fold (\<lambda>data st.
                   if - 1 < indexOf data (START_TRIGGER i)
                   then callback (emit NextTick (initialize i st)) else st)
             datas
             (emit (Spawn (path_join p [rootDir i, ''bin'', ''elasticsearch'']) []
                      [(''JAVA_HOME'', if truthy (env_JAVA_HOME w) then env_JAVA_HOME w
                                       else snd (java_home_reply w))]) s2)
       \<and> ready_calls (start p i w outs (report []) s) =
           ready_calls s +
           length (filter (has_marker i) (handled (error_listener s) outs))"
proof (intro conjI)
  show "start p i w (map Stdout datas) callback s =
          fold (\<lambda>data st.
                  if - 1 < indexOf data (START_TRIGGER i)
                  then callback (emit NextTick (initialize i st)) else st)
            datas
            (emit (Spawn (path_join p [rootDir i, ''bin'', ''elasticsearch'']) []
                     [(''JAVA_HOME'', if truthy (env_JAVA_HOME w) then env_JAVA_HOME w
                                      else snd (java_home_reply w))]) s2)"
    unfolding start_after_prepareConfig [OF assms] by (rule daemon_output_stdout_fold)
  show "ready_calls (start p i w outs (report []) s) =
          ready_calls s +
          length (filter (has_marker i) (handled (error_listener s) outs))"
    by (rule ready_calls_start [OF assms])
qed

theorem start_onReady_per_marker_chunk_witness:
  "prepareConfig demo_platform demo_node (emit FindJavaHome demo_down) =
     Inr (writeFileSync (configFile demo_platform demo_node)
            (json_stringify demo_platform
               (JObj (extend_props [] (config_overrides demo_node))))
            (emit FindJavaHome demo_down))
   \<and> ready_calls (start demo_platform demo_node demo_world
        [Stdout ''starting'', Stdout ''[pirate-123] started'', Stdout ''[pirate-1] started'']
        (report []) demo_down) = 1
   \<and> ready_calls (start demo_platform demo_node demo_world
        [Stdout ''[pirate-'', Stdout ''123] started''] (report []) demo_down) = 0
   \<and> ready_calls (start demo_platform demo_node demo_world
        [Stdout ''starting'', Stderr ''warning'', Stdout ''[pirate-123] started'']
        (report []) demo_down) = 0
   \<and> ready_calls (start demo_platform demo_node demo_world
        [Stdout ''starting'', Stderr ''warning'', Stdout ''[pirate-123] started'']
        (report []) (demo_down\<lparr>error_listener := True\<rparr>)) = 1"
proof -
  have f: "files (emit FindJavaHome demo_down) (configFile demo_platform demo_node) = None"
    by (simp add: files_emit demo_down_def)
  have g: "files (emit FindJavaHome (demo_down\<lparr>error_listener := True\<rparr>))
      (configFile demo_platform demo_node) = None"
    by (simp add: files_emit demo_down_def)
  note pc = prepareConfig_no_file [OF f]
  note pd = prepareConfig_no_file [OF g]
  have z: "ready_calls demo_down = 0" "ready_calls (demo_down\<lparr>error_listener := True\<rparr>) = 0"
    "\<not> error_listener demo_down"
    by (simp_all add: ready_calls_def demo_down_def)
  show ?thesis
    using pc z
      start_onReady_per_marker_chunk [OF pc, of demo_world _ _
        "[Stdout ''starting'', Stdout ''[pirate-123] started'', Stdout ''[pirate-1] started'']",
        THEN conjunct2]
      start_onReady_per_marker_chunk [OF pc, of demo_world _ _
        "[Stdout ''[pirate-'', Stdout ''123] started'']", THEN conjunct2]
      start_onReady_per_marker_chunk [OF pc, of demo_world _ _
        "[Stdout ''starting'', Stderr ''warning'', Stdout ''[pirate-123] started'']",
        THEN conjunct2]
      start_onReady_per_marker_chunk [OF pd, of demo_world _ _
        "[Stdout ''starting'', Stderr ''warning'', Stdout ''[pirate-123] started'']",
        THEN conjunct2]
    by (simp add: has_marker_def indexOf_def START_TRIGGER_def NODE_NAME_def demo_node_def
        handled_def from_stdout_def)
qed

text \<open>
  Claim C2 as stated fails: there is no guard against a second match. When two chunks
  contain the marker, \<^verbatim>\<open>onReady\<close> is called twice.
\<close>

theorem start_onReady_twice_counterexample:
  "ready_calls (start demo_platform demo_node demo_world
      [Stdout ''[pirate-123] started'', Stdout ''node [pirate-123] started again'']
      (report []) demo_down) = 2"
proof -
  have "ready_calls demo_down = 0"
    by (simp add: ready_calls_def demo_down_def)
  moreover have "files (emit FindJavaHome demo_down) (configFile demo_platform demo_node) = None"
    by (simp add: files_emit demo_down_def)
  moreover have "has_marker demo_node (Stdout ''[pirate-123] started'')"
    by (simp add: has_marker_def indexOf_def START_TRIGGER_def NODE_NAME_def demo_node_def)
  moreover have "has_marker demo_node (Stdout ''node [pirate-123] started again'')"
    by (simp add: has_marker_def indexOf_def START_TRIGGER_def NODE_NAME_def demo_node_def)
  ultimately show ?thesis
    by (simp add: ready_calls_start [OF prepareConfig_no_file] handled_def from_stdout_def)
qed

section \<open>Shutdown\<close>

text \<open>
  Claim C9, as the code has it. \<^verbatim>\<open>shutdown\<close> does not test \<^verbatim>\<open>client\<close>. Called
  before \<^verbatim>\<open>initialize\<close>, it reads the property \<^verbatim>\<open>nodes\<close> of \<^verbatim>\<open>undefined\<close>, which
  raises the engine's \<^verbatim>\<open>TypeError\<close> at once: no remote call is made, the callback is
  never called, and \<^verbatim>\<open>client\<close> stays undefined.
\<close>

theorem shutdown_before_initialize:
  assumes "client s = None"
  shows "shutdown w callback s = throw (ReadPropertyOfUndefined ''nodes'') s
       \<and> trace (shutdown w callback s) = trace s @ [Throws (ReadPropertyOfUndefined ''nodes'')]
       \<and> client (shutdown w callback s) = None"
  using assms by (simp add: shutdown_def throw_def trace_emit client_emit)

theorem shutdown_before_initialize_witness:
  "client demo_down = None
   \<and> shutdown demo_world (\<lambda>err res. report [err, res]) demo_down =
       demo_down\<lparr>trace := [Throws (ReadPropertyOfUndefined ''nodes'')]\<rparr>"
proof -
  have c: "client demo_down = None" by (simp add: demo_down_def)
  show ?thesis
    using c shutdown_before_initialize [OF c, of demo_world "\<lambda>err res. report [err, res]"]
    by (simp add: throw_def emit_def demo_down_def)
qed

text \<open>
  Claim C9 as stated fails: the call does operate on the undefined handle, and the only
  error is the one that reading a property of \<^verbatim>\<open>undefined\<close> raises.
\<close>

theorem shutdown_before_initialize_counterexample:
  "trace (shutdown demo_world (\<lambda>err res. report [err, res]) demo_down) =
     [Throws (ReadPropertyOfUndefined ''nodes'')]"
  by (simp add: shutdown_def demo_down_def throw_def trace_emit)

section \<open>Rebuilding the index: the sequence of steps\<close>

text \<open>
  Claim C1. With the client in place, \<^verbatim>\<open>setupIndex\<close> first asks whether the index
  exists. An error of that check goes to the callback, with nothing but the check done
  before. If the index exists it is deleted next, and an error of the deletion goes to
  the callback, with nothing but the check and the deletion done before; without an
  error the connector is recreated after the deletion. If the index does not exist,
  the connector is recreated right after the check, with no deletion.
\<close>

theorem setupIndex_sequencing:
  assumes "client s = Some c"
  shows "(truthy (fst (exists_reply w)) \<longrightarrow>
            setupIndex w i callback s =
              callback (fst (exists_reply w))
                (emit (IndicesExists (JObj [(''index'', JStr INDEX_NAME)])) s))
       \<and> (\<not> truthy (fst (exists_reply w)) \<and> truthy (snd (exists_reply w)) \<and>
          truthy (delete_reply w) \<longrightarrow>
            setupIndex w i callback s =
              callback (delete_reply w)
                (emit (IndicesDelete (JObj [(''index'', JStr INDEX_NAME)]))
                   (emit (IndicesExists (JObj [(''index'', JStr INDEX_NAME)])) s)))
       \<and> (\<not> truthy (fst (exists_reply w)) \<and> truthy (snd (exists_reply w)) \<and>
          \<not> truthy (delete_reply w) \<longrightarrow>
            setupIndex w i callback s =
              triggerRiver w i callback
                (emit (IndicesDelete (JObj [(''index'', JStr INDEX_NAME)]))
                   (emit (IndicesExists (JObj [(''index'', JStr INDEX_NAME)])) s)))
       \<and> (\<not> truthy (fst (exists_reply w)) \<and> \<not> truthy (snd (exists_reply w)) \<longrightarrow>
            setupIndex w i callback s =
              triggerRiver w i callback
                (emit (IndicesExists (JObj [(''index'', JStr INDEX_NAME)])) s))"
  using assms by (simp add: setupIndex_def indexExists_def deleteIndex_def client_emit)

theorem setupIndex_sequencing_witness:
  "client demo_ready = Some (JObj [(''host'', JStr ''localhost:9200'')])
   \<and> trace (setupIndex (demo_world\<lparr>exists_reply := (JError ''no living connections'', JUndefined)\<rparr>)
               demo_node (\<lambda>err. report [err]) demo_ready) =
       [IndicesExists (JObj [(''index'', JStr ''torrents'')]),
        Invoked [JError ''no living connections'']]
   \<and> trace (setupIndex (demo_world\<lparr>delete_reply := JError ''forbidden''\<rparr>)
               demo_node (\<lambda>err. report [err]) demo_ready) =
       [IndicesExists (JObj [(''index'', JStr ''torrents'')]),
        IndicesDelete (JObj [(''index'', JStr ''torrents'')]),
        Invoked [JError ''forbidden'']]
   \<and> setupIndex demo_world demo_node (\<lambda>err. report [err]) demo_ready =
       triggerRiver demo_world demo_node (\<lambda>err. report [err])
         (emit (IndicesDelete (JObj [(''index'', JStr ''torrents'')]))
            (emit (IndicesExists (JObj [(''index'', JStr ''torrents'')])) demo_ready))
   \<and> setupIndex (demo_world\<lparr>exists_reply := (JUndefined, JBool False)\<rparr>)
        demo_node (\<lambda>err. report [err]) demo_ready =
       triggerRiver (demo_world\<lparr>exists_reply := (JUndefined, JBool False)\<rparr>)
         demo_node (\<lambda>err. report [err])
         (emit (IndicesExists (JObj [(''index'', JStr ''torrents'')])) demo_ready)"
proof -
  have c: "client demo_ready = Some (JObj [(''host'', JStr ''localhost:9200'')])"
    by (simp add: demo_defs)
  note th = setupIndex_sequencing [OF c, where i = demo_node and callback = "\<lambda>err. report [err]"]
  show ?thesis
    using c
      th [of "demo_world\<lparr>exists_reply := (JError ''no living connections'', JUndefined)\<rparr>"]
      th [of "demo_world\<lparr>delete_reply := JError ''forbidden''\<rparr>"]
      th [of demo_world]
      th [of "demo_world\<lparr>exists_reply := (JUndefined, JBool False)\<rparr>"]
    by (simp add: demo_world_def INDEX_NAME_def report_def trace_emit)
       (simp add: demo_ready_def demo_down_def)
qed

text \<open>
  Claim C8, as the code has it. \<^verbatim>\<open>triggerRiver\<close> logs and sends one \<^verbatim>\<open>DELETE\<close> to
  the connector's URL. Of the answer it looks at the \<^verbatim>\<open>err\<close> argument alone. An
  \<^verbatim>\<open>err\<close>, whatever its cause, goes to the callback at once and nothing more is sent.
  Without an \<^verbatim>\<open>err\<close>, whatever the response and its status are, the timer of 2000 ms
  is set, then the connector definition is sent once with \<^verbatim>\<open>PUT\<close> to the URL's
  \<^verbatim>\<open>/_meta\<close>, and the \<^verbatim>\<open>err\<close> of that request goes to the callback. Nothing is sent
  twice. The definition sent is the JDBC import of \<^verbatim>\<open>select * from torrents\<close> into
  index \<^verbatim>\<open>torrents\<close>, type \<^verbatim>\<open>torrent\<close>, with 5 shards, 1 replica and the torrent
  mapping.
\<close>

theorem triggerRiver_sequence:
  "triggerRiver w i callback s =
     (let s1 = emit (HttpRequest (river_delete i))
                 (emit (ConsoleLog ''Importing data from MySQL into index...'') s);
          err = fst (http_reply w (river_delete i))
      in if truthy err then callback err s1
         else callback (fst (http_reply w (river_definition i)))
                (emit (HttpRequest (river_definition i)) (emit (SetTimeout 2000) s1)))
   \<and> river_delete i =
       JObj [(''uri'', JStr (''http://'' @ search_host (config i) @ '':'' @
                            search_port (config i) @ ''/_river/my_mysql_river'')),
             (''method'', JStr ''DELETE'')]
   \<and> get_path (river_definition i) [''uri''] =
       JStr (''http://'' @ search_host (config i) @ '':'' @ search_port (config i) @
             ''/_river/my_mysql_river/_meta'')
   \<and> get_path (river_definition i) [''method''] = JStr ''PUT''
   \<and> get_path (river_definition i) [''json''] = JBool True
   \<and> get_path (river_definition i) [''body'', ''type''] = JStr ''jdbc''
   \<and> get_path (river_definition i) [''body'', ''jdbc'', ''url''] =
       JStr (''jdbc:'' @ dataSource_url (config i))
   \<and> get_path (river_definition i) [''body'', ''jdbc'', ''user''] = dataSource_user (config i)
   \<and> get_path (river_definition i) [''body'', ''jdbc'', ''password''] =
       dataSource_password (config i)
   \<and> get_path (river_definition i) [''body'', ''jdbc'', ''sql''] =
       JStr ''select * from torrents''
   \<and> get_path (river_definition i) [''body'', ''jdbc'', ''index''] = JStr ''torrents''
   \<and> get_path (river_definition i) [''body'', ''jdbc'', ''type''] = JStr ''torrent''
   \<and> get_path (river_definition i) [''body'', ''jdbc'', ''index_settings''] =
       JObj [(''index'', JObj [(''number_of_shards'', JNum 5),
                               (''number_of_replicas'', JNum 1)])]
   \<and> get_path (river_definition i) [''body'', ''jdbc'', ''type_mapping''] =
       JObj [(''torrent'', JObj
         [(''_id'', JObj [(''type'', JStr ''string''), (''path'', JStr ''hash''),
                          (''index'', JStr ''not_analyzed'')]),
          (''properties'', JObj
            [(''hash'', JObj [(''type'', JStr ''string''), (''index'', JStr ''not_analyzed'')]),
             (''uploaded'', JObj [(''type'', JStr ''date''), (''index'', JStr ''not_analyzed'')]),
             (''size'', JObj [(''type'', JStr ''long''), (''index'', JStr ''not_analyzed'')]),
             (''title'', JObj [(''type'', JStr ''string''), (''analyzer'', JStr ''english'')]),
             (''source'', JObj [(''type'', JStr ''string''), (''analyzer'', JStr ''english'')]),
             (''nfo'', JObj [(''type'', JStr ''string''), (''analyzer'', JStr ''english'')]),
             (''seeders'', JObj [(''type'', JStr ''long''), (''index'', JStr ''not_analyzed'')]),
             (''leechers'', JObj [(''type'', JStr ''long''),
                                 (''index'', JStr ''not_analyzed'')])])])]"
proof -
  have "triggerRiver w i callback s =
     (let s1 = emit (HttpRequest (river_delete i))
                 (emit (ConsoleLog ''Importing data from MySQL into index...'') s);
          err = fst (http_reply w (river_delete i))
      in if truthy err then callback err s1
         else callback (fst (http_reply w (river_definition i)))
                (emit (HttpRequest (river_definition i)) (emit (SetTimeout 2000) s1)))"
    by (simp add: triggerRiver_def createRiver_def request_def Let_def split: prod.splits)
  then show ?thesis
    by (simp add: river_delete_def river_definition_def RIVER_URL_def INDEX_NAME_def
        TORRENT_DOCUMENT_MAPPING_def get_prop_def)
qed

theorem triggerRiver_sequence_witness:
  "trace (triggerRiver
            (demo_world\<lparr>http_reply :=
               (\<lambda>req. (JNull, JObj [(''statusCode'', JNum 404)], JObj []))\<rparr>)
            demo_node (\<lambda>err. report [err]) demo_ready) =
     [ConsoleLog ''Importing data from MySQL into index...'',
      HttpRequest (JObj [(''uri'', JStr ''http://localhost:9200/_river/my_mysql_river''),
                         (''method'', JStr ''DELETE'')]),
      SetTimeout 2000,
      HttpRequest (JObj
        [(''uri'', JStr ''http://localhost:9200/_river/my_mysql_river/_meta''),
         (''method'', JStr ''PUT''),
         (''json'', JBool True),
         (''body'', JObj
           [(''type'', JStr ''jdbc''),
            (''jdbc'', JObj
              [(''url'', JStr ''jdbc:mysql://localhost:3306/tpb''),
               (''user'', JStr ''pirate''),
               (''password'', JStr ''secret''),
               (''sql'', JStr ''select * from torrents''),
               (''index'', JStr ''torrents''),
               (''type'', JStr ''torrent''),
               (''index_settings'', JObj
                 [(''index'', JObj [(''number_of_shards'', JNum 5),
                                    (''number_of_replicas'', JNum 1)])]),
               (''type_mapping'', JObj [(''torrent'', TORRENT_DOCUMENT_MAPPING)])])])]),
      Invoked [JNull]]
   \<and> trace (triggerRiver
              (demo_world\<lparr>http_reply :=
                 (\<lambda>req. (JError ''connect ECONNREFUSED'', JUndefined, JUndefined))\<rparr>)
              demo_node (\<lambda>err. report [err]) demo_ready) =
       [ConsoleLog ''Importing data from MySQL into index...'',
        HttpRequest (JObj [(''uri'', JStr ''http://localhost:9200/_river/my_mysql_river''),
                           (''method'', JStr ''DELETE'')]),
        Invoked [JError ''connect ECONNREFUSED'']]"
  using
    triggerRiver_sequence [of
      "demo_world\<lparr>http_reply :=
         (\<lambda>req. (JNull, JObj [(''statusCode'', JNum 404)], JObj []))\<rparr>"
      demo_node "\<lambda>err. report [err]" demo_ready, THEN conjunct1]
    triggerRiver_sequence [of
      "demo_world\<lparr>http_reply :=
         (\<lambda>req. (JError ''connect ECONNREFUSED'', JUndefined, JUndefined))\<rparr>"
      demo_node "\<lambda>err. report [err]" demo_ready, THEN conjunct1]
  by (simp add: Let_def report_def trace_emit demo_ready_def demo_down_def)
     (simp add: river_delete_def river_definition_def RIVER_URL_def INDEX_NAME_def
        demo_node_def demo_config_def)

text \<open>
  Claim C8 as stated fails, whichever way its word ``error'' is read. If a missing
  connector makes the \<^verbatim>\<open>DELETE\<close> answer with an \<^verbatim>\<open>err\<close>, that \<^verbatim>\<open>err\<close> is reported
  as a failure and no \<^verbatim>\<open>PUT\<close> follows: it is not treated as success. If an error is a
  response with an error status, a \<^verbatim>\<open>DELETE\<close> answered with status 500 is not reported
  at all: the \<^verbatim>\<open>PUT\<close> follows and the caller is told of success.
\<close>

theorem triggerRiver_error_counterexample:
  "trace (triggerRiver
            (demo_world\<lparr>http_reply :=
               (\<lambda>req. (JError ''connector not found'', JUndefined, JUndefined))\<rparr>)
            demo_node (\<lambda>err. report [err]) demo_ready) =
     [ConsoleLog ''Importing data from MySQL into index...'',
      HttpRequest (river_delete demo_node),
      Invoked [JError ''connector not found'']]
   \<and> trace (triggerRiver
              (demo_world\<lparr>http_reply :=
                 (\<lambda>req. (JNull, JObj [(''statusCode'', JNum 500)], JObj []))\<rparr>)
              demo_node (\<lambda>err. report [err]) demo_ready) =
       [ConsoleLog ''Importing data from MySQL into index...'',
        HttpRequest (river_delete demo_node),
        SetTimeout 2000,
        HttpRequest (river_definition demo_node),
        Invoked [JNull]]"
  by (simp add: triggerRiver_def createRiver_def request_def report_def trace_emit
      demo_ready_def demo_down_def)

text \<open>
  Claim C10. \<^verbatim>\<open>createRiver\<close> passes the \<^verbatim>\<open>err\<close> argument of the \<^verbatim>\<open>PUT\<close> to its
  callback and drops \<open>response\<close> and \<open>body\<close>. So when the steps before it raise no
  error, the callback of \<^verbatim>\<open>setupIndex\<close> receives that \<open>err\<close> whatever the response
  is: with \<open>err\<close> null it is told of success also when the response carries an error
  status.
\<close>

theorem createRiver_reports_transport_error_only:
  assumes "client s = Some c"
    and "\<not> truthy (fst (exists_reply w))"
    and "\<not> truthy (delete_reply w)"
    and "\<not> truthy (fst (http_reply w (river_delete i)))"
    and "http_reply w (river_definition i) = (err, response, body)"
  shows "createRiver w i callback s' =
           callback err (emit (HttpRequest (river_definition i)) s')
       \<and> setupIndex w i callback s =
           callback err
             (emit (HttpRequest (river_definition i))
               (emit (SetTimeout 2000)
                 (emit (HttpRequest (river_delete i))
                   (emit (ConsoleLog ''Importing data from MySQL into index...'')
                     (if truthy (snd (exists_reply w))
                      then emit (IndicesDelete (JObj [(''index'', JStr INDEX_NAME)]))
                             (emit (IndicesExists (JObj [(''index'', JStr INDEX_NAME)])) s)
                      else emit (IndicesExists (JObj [(''index'', JStr INDEX_NAME)])) s)))))"
proof -
  have put: "createRiver w i callback t =
      callback err (emit (HttpRequest (river_definition i)) t)" for t
    using assms(5) by (simp add: createRiver_def request_def)
  have del: "triggerRiver w i callback t =
      createRiver w i callback
        (emit (SetTimeout 2000)
          (emit (HttpRequest (river_delete i))
            (emit (ConsoleLog ''Importing data from MySQL into index...'') t)))" for t
    using assms(4) by (cases "http_reply w (river_delete i)") (simp add: triggerRiver_def request_def)
  show ?thesis
    using assms(1-3)
    by (simp add: put del setupIndex_def indexExists_def deleteIndex_def client_emit)
qed

theorem createRiver_reports_transport_error_only_witness:
  "trace (setupIndex
            (demo_world\<lparr>http_reply := (\<lambda>req.
               if req = river_definition demo_node
               then (JNull, JObj [(''statusCode'', JNum 500)],
                     JObj [(''error'', JStr ''RiverException'')])
               else (JNull, JObj [(''statusCode'', JNum 404)], JObj []))\<rparr>)
            demo_node (\<lambda>err. report [err]) demo_ready) =
     [IndicesExists (JObj [(''index'', JStr ''torrents'')]),
      IndicesDelete (JObj [(''index'', JStr ''torrents'')]),
      ConsoleLog ''Importing data from MySQL into index...'',
      HttpRequest (river_delete demo_node),
      SetTimeout 2000,
      HttpRequest (river_definition demo_node),
      Invoked [JNull]]"
proof -
  let ?w = "demo_world\<lparr>http_reply := (\<lambda>req.
               if req = river_definition demo_node
               then (JNull, JObj [(''statusCode'', JNum 500)],
                     JObj [(''error'', JStr ''RiverException'')])
               else (JNull, JObj [(''statusCode'', JNum 404)], JObj []))\<rparr>"
  have 1: "client demo_ready = Some (JObj [(''host'', JStr ''localhost:9200'')])"
    by (simp add: demo_ready_def demo_down_def)
  have 2: "\<not> truthy (fst (exists_reply ?w))" by (simp add: demo_world_def)
  have 3: "\<not> truthy (delete_reply ?w)" by (simp add: demo_world_def)
  have 4: "\<not> truthy (fst (http_reply ?w (river_delete demo_node)))" by simp
  have 5: "http_reply ?w (river_definition demo_node) =
      (JNull, JObj [(''statusCode'', JNum 500)], JObj [(''error'', JStr ''RiverException'')])"
    by simp
  show ?thesis
    using createRiver_reports_transport_error_only [OF 1 2 3 4 5,
        of "\<lambda>err. report [err]" demo_ready]
    by (simp add: report_def trace_emit INDEX_NAME_def)
       (simp add: demo_world_def demo_ready_def demo_down_def)
qed

section \<open>Query builders: what is sent, and what happens to the options\<close>

text \<open>
  Claim C5. With the client in place, \<^verbatim>\<open>search(query, options, callback)\<close> hands the
  client one request: the options object extended with \<^verbatim>\<open>index\<close> \<^verbatim>\<open>"torrents"\<close>,
  \<^verbatim>\<open>type\<close> \<^verbatim>\<open>"torrent"\<close> and \<^verbatim>\<open>q\<close> the query string as it is, every other property
  of the options kept. The witness is the scenario \<^verbatim>\<open>search("pirate bay", {size: 10})\<close>.
\<close>

theorem search_request:
  assumes "client s = Some c"
  shows "(let req = extend_props (heap s options)
                      [(''index'', JStr INDEX_NAME), (''type'', JStr ''torrent''),
                       (''q'', JStr query)]
          in trace (search query options w (\<lambda>err res. report [err, res]) s) =
               trace s @ [ClientSearch options req,
                          Invoked [fst (search_reply w req), snd (search_reply w req)]]
           \<and> get_prop req ''index'' = JStr ''torrents''
           \<and> get_prop req ''type'' = JStr ''torrent''
           \<and> get_prop req ''q'' = JStr query
           \<and> (\<forall>name. name \<notin> {''index'', ''type'', ''q''} \<longrightarrow>
                  get_prop req name = get_prop (heap s options) name))"
  by (simp add: Let_def search_def client_search_ready [OF assms] report_def trace_emit
      get_prop_set_prop INDEX_NAME_def)

theorem search_request_witness:
  "client demo_ready = Some (JObj [(''host'', JStr ''localhost:9200'')])
   \<and> heap demo_ready 0 = [(''size'', JNum 10)]
   \<and> trace (search ''pirate bay'' 0 demo_world (\<lambda>err res. report [err, res]) demo_ready) =
       [ClientSearch 0
          [(''size'', JNum 10), (''index'', JStr ''torrents''), (''type'', JStr ''torrent''),
           (''q'', JStr ''pirate bay'')],
        Invoked [JUndefined, JObj [(''hits'', JArr [])]]]"
proof -
  have c: "client demo_ready = Some (JObj [(''host'', JStr ''localhost:9200'')])"
    by (simp add: demo_ready_def demo_down_def)
  show ?thesis
    using c search_request [OF c, of 0 "''pirate bay''" demo_world]
    by (simp add: Let_def INDEX_NAME_def demo_ready_def demo_down_def demo_world_def)
qed

text \<open>
  Claim C4. With the client in place, the request of \<^verbatim>\<open>fullSearch\<close> targets index
  \<^verbatim>\<open>torrents\<close> and type \<^verbatim>\<open>torrent\<close>, whatever the options held, and its body is a
  function-score query: \<^verbatim>\<open>min_score\<close> 0.5; a query-string query for the given text
  over the two fields \<^verbatim>\<open>title^4\<close> and \<^verbatim>\<open>nfo\<close>; a field-value factor on
  \<^verbatim>\<open>seeders\<close> with modifier \<^verbatim>\<open>ln2p\<close> and factor 0.5; boost mode \<^verbatim>\<open>multiply\<close>;
  \<^verbatim>\<open>max_boost\<close> 2.5.
\<close>

theorem fullSearch_request_body:
  assumes "client s = Some c"
  shows "(let req = extend_props (heap s options)
                      [(''index'', JStr INDEX_NAME), (''type'', JStr ''torrent''),
                       (''body'', fullSearch_body query)];
              body = get_prop req ''body'';
              fs = get_path body [''query'', ''function_score'']
          in trace (fullSearch query options w (\<lambda>err res. report [err, res]) s) =
               trace s @ [ClientSearch options req,
                          Invoked [fst (search_reply w req), snd (search_reply w req)]]
           \<and> get_prop req ''index'' = JStr ''torrents''
           \<and> get_prop req ''type'' = JStr ''torrent''
           \<and> get_path body [''min_score''] = JNum 0.5
           \<and> get_path fs [''query''] =
               JObj [(''query_string'',
                      JObj [(''fields'', JArr [JStr ''title^4'', JStr ''nfo'']),
                            (''query'', JStr query)])]
           \<and> get_path fs [''field_value_factor''] =
               JObj [(''field'', JStr ''seeders''), (''modifier'', JStr ''ln2p''),
                     (''factor'', JNum 0.5)]
           \<and> get_path fs [''boost_mode''] = JStr ''multiply''
           \<and> get_path fs [''max_boost''] = JNum 2.5)"
  by (simp add: Let_def fullSearch_def client_search_ready [OF assms] report_def trace_emit
      get_prop_set_prop INDEX_NAME_def fullSearch_body_defined)
     (simp add: fullSearch_body_def get_prop_def)

theorem fullSearch_request_body_witness:
  "client demo_ready = Some (JObj [(''host'', JStr ''localhost:9200'')])
   \<and> trace (fullSearch ''pirate bay'' 0 demo_world (\<lambda>err res. report [err, res]) demo_ready) =
       [ClientSearch 0
          [(''size'', JNum 10), (''index'', JStr ''torrents''), (''type'', JStr ''torrent''),
           (''body'', fullSearch_body ''pirate bay'')],
        Invoked [JUndefined, JObj [(''hits'', JArr [])]]]"
proof -
  have c: "client demo_ready = Some (JObj [(''host'', JStr ''localhost:9200'')])"
    by (simp add: demo_ready_def demo_down_def)
  show ?thesis
    using c fullSearch_request_body [OF c, of 0 "''pirate bay''" demo_world]
    by (simp add: Let_def INDEX_NAME_def fullSearch_body_defined)
       (simp add: demo_ready_def demo_down_def demo_world_def)
qed

text \<open>
  Claim C3, as the code has it. With the client in place, \<^verbatim>\<open>search\<close> and
  \<^verbatim>\<open>fullSearch\<close> extend the caller's options object in place. When the callback runs,
  that object holds \<^verbatim>\<open>index\<close> \<^verbatim>\<open>"torrents"\<close>, \<^verbatim>\<open>type\<close> \<^verbatim>\<open>"torrent"\<close> and \<^verbatim>\<open>q\<close> the
  query (for \<^verbatim>\<open>fullSearch\<close>: \<^verbatim>\<open>body\<close> the query body) and otherwise the properties it
  had; it is the very object handed to the client. Nothing else has changed: not the
  client, not the files, not any other object.
\<close>

theorem search_options_in_place:
  assumes "client s = Some c"
  shows "(let req = extend_props (heap s options)
                      [(''index'', JStr INDEX_NAME), (''type'', JStr ''torrent''),
                       (''q'', JStr query)]
          in search query options w callback s =
               callback (fst (search_reply w req)) (snd (search_reply w req))
                 (emit (ClientSearch options req) (s\<lparr>heap := (heap s)(options := req)\<rparr>))
             \<and> heap (search query options w (\<lambda>err res. report [err, res]) s) options = req
             \<and> map_of req ''index'' = Some (JStr ''torrents'')
             \<and> map_of req ''type'' = Some (JStr ''torrent'')
             \<and> map_of req ''q'' = Some (JStr query)
             \<and> (\<forall>name. name \<notin> {''index'', ''type'', ''q''} \<longrightarrow>
                    map_of req name = map_of (heap s options) name))
       \<and> (let req = extend_props (heap s options)
                      [(''index'', JStr INDEX_NAME), (''type'', JStr ''torrent''),
                       (''body'', fullSearch_body query)]
          in fullSearch query options w callback s =
               callback (fst (search_reply w req)) (snd (search_reply w req))
                 (emit (ClientSearch options req) (s\<lparr>heap := (heap s)(options := req)\<rparr>))
             \<and> heap (fullSearch query options w (\<lambda>err res. report [err, res]) s) options = req
             \<and> map_of req ''index'' = Some (JStr ''torrents'')
             \<and> map_of req ''type'' = Some (JStr ''torrent'')
             \<and> map_of req ''body'' = Some (fullSearch_body query)
             \<and> (\<forall>name. name \<notin> {''index'', ''type'', ''body''} \<longrightarrow>
                    map_of req name = map_of (heap s options) name))"
  by (simp add: Let_def search_def fullSearch_def client_search_ready [OF assms]
      map_of_set_prop fullSearch_body_defined report_def emit_def INDEX_NAME_def)

theorem search_options_in_place_witness:
  "client demo_ready = Some (JObj [(''host'', JStr ''localhost:9200'')])
   \<and> search ''pirate bay'' 0 demo_world (\<lambda>err res. report [err, res]) demo_ready =
       demo_ready
         \<lparr>heap := (heap demo_ready)
            (0 := [(''size'', JNum 10), (''index'', JStr ''torrents''),
                   (''type'', JStr ''torrent''), (''q'', JStr ''pirate bay'')]),
          trace :=
            [ClientSearch 0
               [(''size'', JNum 10), (''index'', JStr ''torrents''),
                (''type'', JStr ''torrent''), (''q'', JStr ''pirate bay'')],
             Invoked [JUndefined, JObj [(''hits'', JArr [])]]]\<rparr>
   \<and> heap (fullSearch ''pirate bay'' 0 demo_world (\<lambda>err res. report [err, res]) demo_ready) 0 =
       [(''size'', JNum 10), (''index'', JStr ''torrents''), (''type'', JStr ''torrent''),
        (''body'', fullSearch_body ''pirate bay'')]"
proof -
  have c: "client demo_ready = Some (JObj [(''host'', JStr ''localhost:9200'')])"
    by (simp add: demo_ready_def demo_down_def)
  show ?thesis
    using c search_options_in_place [OF c, of 0 "''pirate bay''" demo_world
        "\<lambda>err res. report [err, res]"]
    by (simp add: Let_def INDEX_NAME_def report_def emit_def fullSearch_body_defined)
       (simp add: demo_ready_def demo_down_def demo_world_def)
qed

text \<open>
  Claim C3 as stated fails: building the request changes the caller's options object.
  After \<^verbatim>\<open>search("pirate bay", options)\<close> with \<^verbatim>\<open>options = {size: 10}\<close>, the
  object is no longer what it was.
\<close>

theorem search_options_unchanged_counterexample:
  "heap (search ''pirate bay'' 0 demo_world (\<lambda>err res. report [err, res]) demo_ready) 0 \<noteq>
     heap demo_ready 0"
  by (simp add: search_def client_search_def extend_ref_def Let_def report_def emit_def
      demo_ready_def demo_down_def)

section \<open>The configuration file\<close>

text \<open>
  Claim C6. When the configuration file exists and parses to an object,
  \<^verbatim>\<open>prepareConfig\<close> writes the file in every case, with the stringified merge: the keys
  \<^verbatim>\<open>cluster\<close>, \<^verbatim>\<open>node\<close> and \<^verbatim>\<open>network\<close> hold the new objects whole, whatever
  was under them, and every other top-level key holds what the file had.
\<close>

theorem prepareConfig_merge:
  assumes "files s (configFile p i) = Some content"
    and "json_parse p content = Some (JObj base)"
  shows "(let merged = extend_props base (config_overrides i);
              written = json_stringify p (JObj merged)
          in prepareConfig p i s =
               Inr (s\<lparr>files := (files s)(configFile p i \<mapsto> written),
                      trace := trace s @ [WriteFile (configFile p i) written]\<rparr>)
           \<and> map_of merged ''cluster'' = Some (JObj [(''name'', JStr ''piratesbey'')])
           \<and> map_of merged ''node'' =
               Some (JObj [(''name'', JStr (NODE_NAME i)),
                           (''master'', search_master (config i))])
           \<and> map_of merged ''network'' =
               Some (JObj [(''bind_host'', JStr (search_host (config i))),
                           (''publish_host'', JStr (search_host (config i)))])
           \<and> (\<forall>name. name \<notin> {''cluster'', ''node'', ''network''} \<longrightarrow>
                  map_of merged name = map_of base name))"
  using assms
  by (simp add: Let_def prepareConfig_def writeFileSync_def emit_def config_overrides_def
      map_of_set_prop CLUSTER_NAME_def)

theorem prepareConfig_merge_witness:
  "files (demo_installed ''{http: {port: 9200}, cluster: {name: old, routing: x}}'')
     (configFile demo_platform demo_node) =
     Some ''{http: {port: 9200}, cluster: {name: old, routing: x}}''
   \<and> json_parse demo_platform ''{http: {port: 9200}, cluster: {name: old, routing: x}}'' =
       Some (JObj [(''http'', JObj [(''port'', JNum 9200)]),
                   (''cluster'', JObj [(''name'', JStr ''old''), (''routing'', JStr ''x'')])])
   \<and> extend_props
        [(''http'', JObj [(''port'', JNum 9200)]),
         (''cluster'', JObj [(''name'', JStr ''old''), (''routing'', JStr ''x'')])]
        (config_overrides demo_node) =
       [(''http'', JObj [(''port'', JNum 9200)]),
        (''cluster'', JObj [(''name'', JStr ''piratesbey'')]),
        (''node'', JObj [(''name'', JStr ''pirate-123''), (''master'', JBool True)]),
        (''network'', JObj [(''bind_host'', JStr ''localhost''),
                            (''publish_host'', JStr ''localhost'')])]
   \<and> (case prepareConfig demo_platform demo_node
             (demo_installed ''{http: {port: 9200}, cluster: {name: old, routing: x}}'') of
        Inl e \<Rightarrow> False
      | Inr s \<Rightarrow>
          files s (configFile demo_platform demo_node) = Some ''httpclusternodenetwork''
          \<and> trace s = [WriteFile ''/opt/es/config/elasticsearch.json''
                         ''httpclusternodenetwork''])"
proof -
  let ?content = "''{http: {port: 9200}, cluster: {name: old, routing: x}}''"
  have f: "files (demo_installed ?content) (configFile demo_platform demo_node) = Some ?content"
    by (simp add: demo_installed_def)
  have j: "json_parse demo_platform ?content =
      Some (JObj [(''http'', JObj [(''port'', JNum 9200)]),
                  (''cluster'', JObj [(''name'', JStr ''old''), (''routing'', JStr ''x'')])])"
    by (simp add: demo_platform_def)
  have m: "extend_props
        [(''http'', JObj [(''port'', JNum 9200)]),
         (''cluster'', JObj [(''name'', JStr ''old''), (''routing'', JStr ''x'')])]
        (config_overrides demo_node) =
       [(''http'', JObj [(''port'', JNum 9200)]),
        (''cluster'', JObj [(''name'', JStr ''piratesbey'')]),
        (''node'', JObj [(''name'', JStr ''pirate-123''), (''master'', JBool True)]),
        (''network'', JObj [(''bind_host'', JStr ''localhost''),
                            (''publish_host'', JStr ''localhost'')])]"
    by (simp add: config_overrides_def CLUSTER_NAME_def NODE_NAME_def demo_node_def
        demo_config_def)
  have cf: "configFile demo_platform demo_node = ''/opt/es/config/elasticsearch.json''"
    by (simp add: configFile_def demo_platform_def demo_node_def)
  have st: "json_stringify demo_platform (JObj
       [(''http'', JObj [(''port'', JNum 9200)]),
        (''cluster'', JObj [(''name'', JStr ''piratesbey'')]),
        (''node'', JObj [(''name'', JStr ''pirate-123''), (''master'', JBool True)]),
        (''network'', JObj [(''bind_host'', JStr ''localhost''),
                            (''publish_host'', JStr ''localhost'')])]) =
      ''httpclusternodenetwork''"
    by (simp add: demo_platform_def)
  from prepareConfig_merge [OF f j]
  have "prepareConfig demo_platform demo_node (demo_installed ?content) =
      Inr ((demo_installed ?content)
        \<lparr>files := (files (demo_installed ?content))
            (configFile demo_platform demo_node \<mapsto> ''httpclusternodenetwork''),
         trace := trace (demo_installed ?content) @
            [WriteFile (configFile demo_platform demo_node) ''httpclusternodenetwork'']\<rparr>)"
    by (simp only: Let_def m st)
  then show ?thesis
    using f j m by (simp add: cf demo_installed_def demo_down_def)
qed

text \<open>
  Claim C7, as the code has it. When the configuration file exists and
  \<^verbatim>\<open>JSON.parse\<close> rejects its content, \<^verbatim>\<open>start\<close> ends in the uncaught
  \<^verbatim>\<open>SyntaxError\<close> right after \<^verbatim>\<open>findJavaHome\<close> has answered: nothing is spawned, no
  listener runs whatever the daemon would have written, the file keeps its content, and
  no client is created. When the content parses to a value that is no object
  (\<^verbatim>\<open>null\<close>, a boolean, a number, a string), nothing stops: the value is dropped, the
  file is overwritten with the three keys \<^verbatim>\<open>cluster\<close>, \<^verbatim>\<open>node\<close> and \<^verbatim>\<open>network\<close>
  alone, and the daemon is spawned.
\<close>

theorem start_on_unusable_config:
  assumes "files s (configFile p i) = Some content"
  shows "(json_parse p content = None \<longrightarrow>
            start p i w outs callback s = throw (JsonSyntaxError content) (emit FindJavaHome s)
          \<and> trace (start p i w outs callback s) =
              trace s @ [FindJavaHome, Throws (JsonSyntaxError content)]
          \<and> files (start p i w outs callback s) = files s
          \<and> client (start p i w outs callback s) = client s)
       \<and> (\<forall>v. json_parse p content = Some v \<and> json_scalar v \<longrightarrow>
            start p i w outs callback s =
              (let written = json_stringify p (JObj (config_overrides i))
               in daemon_output i callback outs
                    (emit (Spawn (path_join p [rootDir i, ''bin'', ''elasticsearch'']) []
                             [(''JAVA_HOME'', if truthy (env_JAVA_HOME w) then env_JAVA_HOME w
                                              else snd (java_home_reply w))])
                       (s\<lparr>files := (files s)(configFile p i \<mapsto> written),
                          trace := trace s @
                            [FindJavaHome, WriteFile (configFile p i) written]\<rparr>))))"
proof (intro conjI impI allI)
  assume n: "json_parse p content = None"
  with assms show "start p i w outs callback s =
      throw (JsonSyntaxError content) (emit FindJavaHome s)"
    by (simp add: start_def Let_def prepareConfig_def files_emit)
  then show "trace (start p i w outs callback s) =
      trace s @ [FindJavaHome, Throws (JsonSyntaxError content)]"
    and "files (start p i w outs callback s) = files s"
    and "client (start p i w outs callback s) = client s"
    by (simp_all add: throw_def trace_emit files_emit client_emit)
next
  fix v
  assume v: "json_parse p content = Some v \<and> json_scalar v"
  then have "extend_local v (config_overrides i) = JObj (config_overrides i)"
    by (cases v) (simp_all add: config_overrides_def)
  with assms v show "start p i w outs callback s =
      (let written = json_stringify p (JObj (config_overrides i))
       in daemon_output i callback outs
            (emit (Spawn (path_join p [rootDir i, ''bin'', ''elasticsearch'']) []
                     [(''JAVA_HOME'', if truthy (env_JAVA_HOME w) then env_JAVA_HOME w
                                      else snd (java_home_reply w))])
               (s\<lparr>files := (files s)(configFile p i \<mapsto> written),
                  trace := trace s @
                    [FindJavaHome, WriteFile (configFile p i) written]\<rparr>)))"
    by (simp add: start_def Let_def prepareConfig_def writeFileSync_def emit_def)
qed

theorem start_on_unusable_config_witness:
  "files (demo_installed ''cluster.name: old'') (configFile demo_platform demo_node) =
     Some ''cluster.name: old''
   \<and> json_parse demo_platform ''cluster.name: old'' = None
   \<and> start demo_platform demo_node demo_world
        [Stdout ''[pirate-123] started''] (report []) (demo_installed ''cluster.name: old'') =
       (demo_installed ''cluster.name: old'')
         \<lparr>trace := [FindJavaHome, Throws (JsonSyntaxError ''cluster.name: old'')]\<rparr>
   \<and> files (demo_installed ''5'') (configFile demo_platform demo_node) = Some ''5''
   \<and> json_parse demo_platform ''5'' = Some (JNum 5)
   \<and> json_scalar (JNum 5)
   \<and> start demo_platform demo_node demo_world [] (report []) (demo_installed ''5'') =
       (demo_installed ''5'')
         \<lparr>files := [''/opt/es/config/elasticsearch.json'' \<mapsto> ''clusternodenetwork''],
          trace := [FindJavaHome,
                    WriteFile ''/opt/es/config/elasticsearch.json'' ''clusternodenetwork'',
                    Spawn ''/opt/es/bin/elasticsearch'' []
                      [(''JAVA_HOME'', JStr ''/usr/lib/jvm/default'')]]\<rparr>"
proof -
  have f: "files (demo_installed ''cluster.name: old'') (configFile demo_platform demo_node) =
      Some ''cluster.name: old''"
    by (simp add: demo_installed_def)
  have j: "json_parse demo_platform ''cluster.name: old'' = None"
    by (simp add: demo_platform_def)
  have g: "files (demo_installed ''5'') (configFile demo_platform demo_node) = Some ''5''"
    by (simp add: demo_installed_def)
  have k: "json_parse demo_platform ''5'' = Some (JNum 5) \<and> json_scalar (JNum 5)"
    by (simp add: demo_platform_def)
  have cf: "configFile demo_platform demo_node = ''/opt/es/config/elasticsearch.json''"
    by (simp add: configFile_def demo_platform_def demo_node_def)
  have a: "start demo_platform demo_node demo_world
        [Stdout ''[pirate-123] started''] (report []) (demo_installed ''cluster.name: old'') =
       (demo_installed ''cluster.name: old'')
         \<lparr>trace := [FindJavaHome, Throws (JsonSyntaxError ''cluster.name: old'')]\<rparr>"
    using start_on_unusable_config [OF f, of demo_world
        "[Stdout ''[pirate-123] started'']" "report []"] j
    by (simp add: throw_def emit_def demo_installed_def demo_down_def)
  have b: "start demo_platform demo_node demo_world [] (report []) (demo_installed ''5'') =
       (demo_installed ''5'')
         \<lparr>files := [''/opt/es/config/elasticsearch.json'' \<mapsto> ''clusternodenetwork''],
          trace := [FindJavaHome,
                    WriteFile ''/opt/es/config/elasticsearch.json'' ''clusternodenetwork'',
                    Spawn ''/opt/es/bin/elasticsearch'' []
                      [(''JAVA_HOME'', JStr ''/usr/lib/jvm/default'')]]\<rparr>"
    using start_on_unusable_config [OF g, of demo_world "[]" "report []",
        THEN conjunct2, rule_format, OF k] cf
    by (simp add: Let_def emit_def demo_installed_def demo_down_def demo_world_def
        config_overrides_def)
       (simp add: demo_platform_def demo_node_def)
  from f j g k a b show ?thesis by simp
qed

text \<open>
  Claim C7 as stated fails for a file whose content parses but is no structured data.
  With the file holding \<^verbatim>\<open>5\<close>, \<^verbatim>\<open>start\<close> does not abort: it overwrites the file,
  whose content is lost, and spawns the daemon.
\<close>

theorem start_scalar_config_counterexample:
  "trace (start demo_platform demo_node demo_world [] (report []) (demo_installed ''5'')) =
     [FindJavaHome,
      WriteFile ''/opt/es/config/elasticsearch.json'' ''clusternodenetwork'',
      Spawn ''/opt/es/bin/elasticsearch'' [] [(''JAVA_HOME'', JStr ''/usr/lib/jvm/default'')]]
   \<and> files (start demo_platform demo_node demo_world [] (report []) (demo_installed ''5''))
       ''/opt/es/config/elasticsearch.json'' = Some ''clusternodenetwork''
   \<and> files (demo_installed ''5'') ''/opt/es/config/elasticsearch.json'' = Some ''5''"
  by (simp add: start_def Let_def prepareConfig_def writeFileSync_def emit_def
      demo_installed_def demo_down_def demo_world_def configFile_def config_overrides_def
      demo_platform_def demo_node_def)

end
